theory Spec2Isabelle
  imports Main "HOL-Library.Multiset"
begin

section \<open>Log records\<close>

text \<open>
  A log entry is a Python dict; every field is read with \<^verbatim>\<open>e.get(key, default)\<close>, so a
  field may be absent.  An absent key is \<open>None\<close>; the default is applied at each read,
  as in the source.
\<close>

record entry =
  timestamp :: "string option"
  service :: "string option"
  level :: "string option"
  message :: "string option"
  line_number :: "int option"

definition get_or :: "'a \<Rightarrow> 'a option \<Rightarrow> 'a" where
  "get_or d v = (case v of None \<Rightarrow> d | Some x \<Rightarrow> x)"

section \<open>Timestamps\<close>

text \<open>
  \<^verbatim>\<open>str.strip()\<close> removes leading and trailing white space (the ASCII white space
  characters of \<^verbatim>\<open>str.isspace\<close>).
\<close>

definition py_isspace :: "char \<Rightarrow> bool" where
  "py_isspace c = ((of_char c :: nat) \<in> {9, 10, 11, 12, 13, 28, 29, 30, 31, 32})"

definition py_strip :: "string \<Rightarrow> string" where
  "py_strip s = rev (dropWhile py_isspace (rev (dropWhile py_isspace s)))"

text \<open>
  \<^verbatim>\<open>_parse_timestamp\<close>: the library call \<^verbatim>\<open>datetime.strptime(_, "%Y-%m-%d %H:%M:%S")\<close>
  is the parameter \<open>strptime\<close>; it yields the instant in whole seconds (the format has no
  fraction and no zone) or \<open>None\<close> where the library raises \<^verbatim>\<open>ValueError\<close>.
\<close>

type_synonym instant = int

definition parse_timestamp :: "(string \<Rightarrow> instant option) \<Rightarrow> string \<Rightarrow> instant option" where
  "parse_timestamp strptime ts = strptime (py_strip ts)"

text \<open>
  An instance of the library parameter on zero-padded input \<^verbatim>\<open>YYYY-MM-DD HH:MM:SS\<close>:
  the seconds since the start of the proleptic Gregorian day 1 (\<^verbatim>\<open>date.toordinal\<close>),
  \<open>None\<close> on any other shape or on a field out of range.  It is used to run the
  model on concrete records; the theorems hold for every \<open>strptime\<close>.
\<close>

definition digit_val :: "char \<Rightarrow> nat option" where
  "digit_val c = (if 48 \<le> (of_char c :: nat) \<and> (of_char c :: nat) \<le> 57
                  then Some (of_char c - 48) else None)"

fun digits_val :: "nat \<Rightarrow> string \<Rightarrow> nat option" where
  "digits_val acc [] = Some acc"
| "digits_val acc (c # cs) =
     (case digit_val c of None \<Rightarrow> None | Some d \<Rightarrow> digits_val (10 * acc + d) cs)"

definition is_leap :: "nat \<Rightarrow> bool" where
  "is_leap y = (y mod 4 = 0 \<and> (y mod 100 \<noteq> 0 \<or> y mod 400 = 0))"

definition days_in_month :: "nat \<Rightarrow> nat \<Rightarrow> nat" where
  "days_in_month y m =
     (if m = 2 then (if is_leap y then 29 else 28)
      else if m = 4 \<or> m = 6 \<or> m = 9 \<or> m = 11 then 30 else 31)"

definition toordinal :: "nat \<Rightarrow> nat \<Rightarrow> nat \<Rightarrow> nat" where
  "toordinal y m d =
     (y - 1) * 365 + (y - 1) div 4 - (y - 1) div 100 + (y - 1) div 400
     + sum_list (map (days_in_month y) [1..<m]) + d"

definition strptime_padded :: "string \<Rightarrow> instant option" where
  "strptime_padded s =
     (if length s = 19 \<and> s ! 4 = CHR ''-'' \<and> s ! 7 = CHR ''-'' \<and> s ! 10 = CHR '' ''
         \<and> s ! 13 = CHR '':'' \<and> s ! 16 = CHR '':''
      then
        (case (digits_val 0 (take 4 s), digits_val 0 (take 2 (drop 5 s)),
               digits_val 0 (take 2 (drop 8 s)), digits_val 0 (take 2 (drop 11 s)),
               digits_val 0 (take 2 (drop 14 s)), digits_val 0 (take 2 (drop 17 s))) of
           (Some y, Some m, Some d, Some hh, Some mm, Some ss) \<Rightarrow>
             if 1 \<le> y \<and> 1 \<le> m \<and> m \<le> 12 \<and> 1 \<le> d \<and> d \<le> days_in_month y m
                \<and> hh \<le> 23 \<and> mm \<le> 59 \<and> ss \<le> 59
             then Some (int (toordinal y m d * 86400 + hh * 3600 + mm * 60 + ss))
             else None
         | _ \<Rightarrow> None)
      else None)"

text \<open>
  The loop that collects \<^verbatim>\<open>(dt, e)\<close> for the parsable entries, followed by the stable
  \<^verbatim>\<open>sort(key=lambda x: x[0])\<close>.
\<close>

definition timed_entries :: "(string \<Rightarrow> instant option) \<Rightarrow> entry list \<Rightarrow> (instant \<times> entry) list" where
  "timed_entries strptime entries =
     sort_key fst
       (List.map_filter
          (\<lambda>e. case parse_timestamp strptime (get_or [] (timestamp e)) of
                  None \<Rightarrow> None
                | Some dt \<Rightarrow> Some (dt, e))
          entries)"

section \<open>Time-window grouping\<close>


text \<open>
  The state of the loop of \<^verbatim>\<open>_build_time_groups\<close> is \<^verbatim>\<open>(groups, current_group, group_start)\<close>;
  \<open>group_step\<close> is its body.
\<close>

type_synonym group_state = "entry list list \<times> entry list \<times> instant"

fun group_step :: "int \<Rightarrow> group_state \<Rightarrow> instant \<times> entry \<Rightarrow> group_state" where
  "group_step window (groups, current_group, group_start) (dt, e) =
     (if dt - group_start \<le> window
      then (groups, current_group @ [e], group_start)
      else ((if length current_group \<ge> 2 then groups @ [current_group] else groups), [e], dt))"

fun close_group :: "group_state \<Rightarrow> entry list list" where
  "close_group (groups, current_group, group_start) =
     (if length current_group \<ge> 2 then groups @ [current_group] else groups)"

definition group_timed :: "int \<Rightarrow> (instant \<times> entry) list \<Rightarrow> entry list list" where
  "group_timed window timed =
     (case timed of
        [] \<Rightarrow> []
      | (dt0, e0) # rest \<Rightarrow> close_group (foldl (group_step window) ([], [e0], dt0) rest))"

definition build_time_groups :: "(string \<Rightarrow> instant option) \<Rightarrow> entry list \<Rightarrow> int \<Rightarrow> entry list list" where
  "build_time_groups strptime entries window = group_timed window (timed_entries strptime entries)"

text \<open>
  The grouping as the specification words it: a group is its anchor (the first record)
  followed by the longest run of subsequent records within \<open>window\<close> seconds of the
  anchor; the first record outside anchors the next group; groups of one record are
  dropped.
\<close>

function greedy_groups :: "int \<Rightarrow> (instant \<times> entry) list \<Rightarrow> entry list list" where
  "greedy_groups window [] = []"
| "greedy_groups window ((t0, e0) # rest) =
     (let g = e0 # map snd (takeWhile (\<lambda>(t, e). t - t0 \<le> window) rest)
      in (if length g \<ge> 2 then [g] else [])
         @ greedy_groups window (dropWhile (\<lambda>(t, e). t - t0 \<le> window) rest))"
  by pat_completeness auto
termination
  by (relation "measure (\<lambda>(w, xs). length xs)") (auto simp: length_dropWhile_le less_Suc_eq_le)

section \<open>Sample records\<close>

text \<open>A record of service \<open>api\<close> at a given timestamp and line, for concrete runs.\<close>

definition rec_at :: "string \<Rightarrow> int \<Rightarrow> entry" where
  "rec_at ts n = \<lparr>timestamp = Some ts, service = Some ''api'', level = Some ''ERROR'',
                  message = Some ''timeout'', line_number = Some n\<rparr>"

section \<open>Verification: time-window grouping\<close>

lemmas ts_eval = parse_timestamp_def py_strip_def py_isspace_def strptime_padded_def
  digit_val_def toordinal_def days_in_month_def is_leap_def upt_rec get_or_def

lemma close_foldl_group_step:
  "close_group (foldl (group_step w) (groups, cur, gs) rest) =
     groups @ (let g = cur @ map snd (takeWhile (\<lambda>(t, e). t - gs \<le> w) rest)
               in (if length g \<ge> 2 then [g] else [])
                  @ greedy_groups w (dropWhile (\<lambda>(t, e). t - gs \<le> w) rest))"
proof (induction rest arbitrary: groups cur gs)
  case Nil
  then show ?case by simp
next
  case (Cons x rest)
  obtain t e where x: "x = (t, e)" by (cases x)
  show ?case
  proof (cases "t - gs \<le> w")
    case True
    then show ?thesis using Cons.IH [of groups "cur @ [e]" gs] by (simp add: x Let_def)
  next
    case False
    then show ?thesis
      using Cons.IH [of "if length cur \<ge> 2 then groups @ [cur] else groups" "[e]" t]
      by (simp add: x Let_def)
  qed
qed

lemma group_timed_greedy: "group_timed w timed = greedy_groups w timed"
  by (cases timed) (auto simp: group_timed_def close_foldl_group_step Let_def)

lemma sorted_timed_entries: "sorted (map fst (timed_entries strptime entries))"
  by (simp add: timed_entries_def)

lemma mset_timed_entries:
  "mset (timed_entries strptime entries) =
     mset (List.map_filter
          (\<lambda>e. case parse_timestamp strptime (get_or [] (timestamp e)) of
                  None \<Rightarrow> None
                | Some dt \<Rightarrow> Some (dt, e))
          entries)"
  by (simp add: timed_entries_def)

text \<open>
  Claim C2.  The time-window grouper is a greedy single pass over the time-parsable
  records sorted ascending by instant: its result is that of \<open>greedy_groups\<close> on the
  sorted parsable records, where a group is the anchor followed by the longest run of
  records within \<open>window\<close> seconds of the anchor (not of the previous record), the
  first record outside anchors the next group, and groups of one record are dropped.
  With window 60 and records at \<open>t0\<close>, \<open>t0 + 50\<close>, \<open>t0 + 130\<close> the result is the
  single group of the first two records.
\<close>

theorem time_groups_greedy:
  "build_time_groups strptime entries window = greedy_groups window (timed_entries strptime entries)
   \<and> sorted (map fst (timed_entries strptime entries))
   \<and> set (timed_entries strptime entries) =
       {(dt, e). e \<in> set entries \<and> parse_timestamp strptime (get_or [] (timestamp e)) = Some dt}
   \<and> (parse_timestamp strptime (get_or [] (timestamp e1)) = Some t0
        \<and> parse_timestamp strptime (get_or [] (timestamp e2)) = Some (t0 + 50)
        \<and> parse_timestamp strptime (get_or [] (timestamp e3)) = Some (t0 + 130)
        \<longrightarrow> build_time_groups strptime [e1, e2, e3] 60 = [[e1, e2]])"
proof (intro conjI impI)
  show "build_time_groups strptime entries window = greedy_groups window (timed_entries strptime entries)"
    by (simp add: build_time_groups_def group_timed_greedy)
  show "sorted (map fst (timed_entries strptime entries))"
    by (rule sorted_timed_entries)
  show "set (timed_entries strptime entries) =
       {(dt, e). e \<in> set entries \<and> parse_timestamp strptime (get_or [] (timestamp e)) = Some dt}"
    by (force simp: timed_entries_def List.map_filter_def image_iff split: option.splits)
next
  assume "parse_timestamp strptime (get_or [] (timestamp e1)) = Some t0
        \<and> parse_timestamp strptime (get_or [] (timestamp e2)) = Some (t0 + 50)
        \<and> parse_timestamp strptime (get_or [] (timestamp e3)) = Some (t0 + 130)"
  then show "build_time_groups strptime [e1, e2, e3] 60 = [[e1, e2]]"
    by (simp add: build_time_groups_def group_timed_def timed_entries_def List.map_filter_def)
qed

theorem time_groups_greedy_witness:
  "build_time_groups strptime_padded
     [rec_at ''2024-01-15 10:00:00'' 1, rec_at ''2024-01-15 10:00:50'' 2,
      rec_at ''2024-01-15 10:02:10'' 3] 60
   = [[rec_at ''2024-01-15 10:00:00'' 1, rec_at ''2024-01-15 10:00:50'' 2]]"
  using time_groups_greedy [of strptime_padded "[]" 60 "rec_at ''2024-01-15 10:00:00'' 1" 63840996000
     "rec_at ''2024-01-15 10:00:50'' 2" "rec_at ''2024-01-15 10:02:10'' 3"]
  by (simp add: rec_at_def ts_eval)



end
